theory Spec2Isabelle
  imports
    Main
    "HOL-Library.Word"
    "HOL-Library.Multiset"
    "HOL-Library.List_Lexorder"
    "HOL-Library.Product_Lexorder"
begin

section \<open>Go values shared by both packages\<close>

text \<open>
  Go's \<open>byte\<close> is an unsigned 8-bit integer, \<open>int32\<close> and \<open>uint32\<close> are 32-bit
  integers. A pointer that may be \<open>nil\<close> is an \<open>option\<close> (\<open>None\<close> is \<open>nil\<close>). A
  slice read only through \<open>len\<close> and indexing is a list; where a getter can hand back
  the \<open>nil\<close> slice itself, the slice is a \<open>list option\<close>.
\<close>

type_synonym byte = "8 word"
type_synonym int32 = "32 word"
type_synonym uint32 = "32 word"

section \<open>Package internet: the generated transport configuration types\<close>

subsection \<open>Enumerations\<close>

type_synonym TransportProtocol = int32

definition TransportProtocol_TCP :: TransportProtocol where
  "TransportProtocol_TCP = 0"

definition TransportProtocol_UDP :: TransportProtocol where
  "TransportProtocol_UDP = 1"

definition TransportProtocol_MKCP :: TransportProtocol where
  "TransportProtocol_MKCP = 2"

definition TransportProtocol_WebSocket :: TransportProtocol where
  "TransportProtocol_WebSocket = 3"

definition TransportProtocol_HTTP :: TransportProtocol where
  "TransportProtocol_HTTP = 4"

definition TransportProtocol_DomainSocket :: TransportProtocol where
  "TransportProtocol_DomainSocket = 5"

type_synonym SocketConfig_TCPFastOpenState = int32

definition SocketConfig_AsIs :: SocketConfig_TCPFastOpenState where
  "SocketConfig_AsIs = 0"

definition SocketConfig_Enable :: SocketConfig_TCPFastOpenState where
  "SocketConfig_Enable = 1"

definition SocketConfig_Disable :: SocketConfig_TCPFastOpenState where
  "SocketConfig_Disable = 2"

type_synonym SocketConfig_TProxyMode = int32

definition SocketConfig_Off :: SocketConfig_TProxyMode where
  "SocketConfig_Off = 0"

definition SocketConfig_TProxy :: SocketConfig_TProxyMode where
  "SocketConfig_TProxy = 1"

definition SocketConfig_Redirect :: SocketConfig_TProxyMode where
  "SocketConfig_Redirect = 2"

subsection \<open>Messages\<close>

text \<open>
  The type \<open>serial.TypedMessage\<close> belongs to another package; it is the type parameter
  \<open>'tm\<close>. Field names carry the name of their struct, since several structs have a
  field \<open>Protocol\<close> or \<open>Tag\<close>. The bookkeeping fields \<open>XXX_...\<close> are read by no getter
  and are left out.
\<close>

record 'tm TransportConfig =
  TransportConfig_Protocol :: TransportProtocol
  TransportConfig_ProtocolName :: string
  TransportConfig_Settings :: "'tm option"

record SocketConfig =
  SocketConfig_Mark :: int32
  SocketConfig_Tfo :: SocketConfig_TCPFastOpenState
  SocketConfig_Tproxy :: SocketConfig_TProxyMode
  SocketConfig_ReceiveOriginalDestAddress :: bool
  SocketConfig_BindAddress :: "byte list option"
  SocketConfig_BindPort :: uint32
  SocketConfig_Tos :: int32

record 'tm StreamConfig =
  StreamConfig_Protocol :: TransportProtocol
  StreamConfig_ProtocolName :: string
  StreamConfig_TransportSettings :: "'tm TransportConfig option list option"
  StreamConfig_SecurityType :: string
  StreamConfig_SecuritySettings :: "'tm option list option"
  StreamConfig_SocketSettings :: "SocketConfig option"

record ProxyConfig =
  ProxyConfig_Tag :: string

subsection \<open>Getters\<close>

text \<open>
  Every getter has a pointer receiver \<open>m\<close> and the body
  \<open>if m != nil { return m.F }; return zero\<close>.
\<close>

definition TransportConfig_GetProtocol :: "'tm TransportConfig option \<Rightarrow> TransportProtocol" where
  "TransportConfig_GetProtocol m =
     (case m of Some c \<Rightarrow> TransportConfig_Protocol c | None \<Rightarrow> TransportProtocol_TCP)"

definition TransportConfig_GetProtocolName :: "'tm TransportConfig option \<Rightarrow> string" where
  "TransportConfig_GetProtocolName m =
     (case m of Some c \<Rightarrow> TransportConfig_ProtocolName c | None \<Rightarrow> [])"

definition TransportConfig_GetSettings :: "'tm TransportConfig option \<Rightarrow> 'tm option" where
  "TransportConfig_GetSettings m =
     (case m of Some c \<Rightarrow> TransportConfig_Settings c | None \<Rightarrow> None)"

definition StreamConfig_GetProtocol :: "'tm StreamConfig option \<Rightarrow> TransportProtocol" where
  "StreamConfig_GetProtocol m =
     (case m of Some c \<Rightarrow> StreamConfig_Protocol c | None \<Rightarrow> TransportProtocol_TCP)"

definition StreamConfig_GetProtocolName :: "'tm StreamConfig option \<Rightarrow> string" where
  "StreamConfig_GetProtocolName m =
     (case m of Some c \<Rightarrow> StreamConfig_ProtocolName c | None \<Rightarrow> [])"

definition StreamConfig_GetTransportSettings ::
  "'tm StreamConfig option \<Rightarrow> 'tm TransportConfig option list option" where
  "StreamConfig_GetTransportSettings m =
     (case m of Some c \<Rightarrow> StreamConfig_TransportSettings c | None \<Rightarrow> None)"

definition StreamConfig_GetSecurityType :: "'tm StreamConfig option \<Rightarrow> string" where
  "StreamConfig_GetSecurityType m =
     (case m of Some c \<Rightarrow> StreamConfig_SecurityType c | None \<Rightarrow> [])"

definition StreamConfig_GetSecuritySettings ::
  "'tm StreamConfig option \<Rightarrow> 'tm option list option" where
  "StreamConfig_GetSecuritySettings m =
     (case m of Some c \<Rightarrow> StreamConfig_SecuritySettings c | None \<Rightarrow> None)"

definition StreamConfig_GetSocketSettings :: "'tm StreamConfig option \<Rightarrow> SocketConfig option" where
  "StreamConfig_GetSocketSettings m =
     (case m of Some c \<Rightarrow> StreamConfig_SocketSettings c | None \<Rightarrow> None)"

definition ProxyConfig_GetTag :: "ProxyConfig option \<Rightarrow> string" where
  "ProxyConfig_GetTag m = (case m of Some c \<Rightarrow> ProxyConfig_Tag c | None \<Rightarrow> [])"

definition SocketConfig_GetMark :: "SocketConfig option \<Rightarrow> int32" where
  "SocketConfig_GetMark m = (case m of Some c \<Rightarrow> SocketConfig_Mark c | None \<Rightarrow> 0)"

definition SocketConfig_GetTfo :: "SocketConfig option \<Rightarrow> SocketConfig_TCPFastOpenState" where
  "SocketConfig_GetTfo m = (case m of Some c \<Rightarrow> SocketConfig_Tfo c | None \<Rightarrow> SocketConfig_AsIs)"

definition SocketConfig_GetTproxy :: "SocketConfig option \<Rightarrow> SocketConfig_TProxyMode" where
  "SocketConfig_GetTproxy m =
     (case m of Some c \<Rightarrow> SocketConfig_Tproxy c | None \<Rightarrow> SocketConfig_Off)"

definition SocketConfig_GetReceiveOriginalDestAddress :: "SocketConfig option \<Rightarrow> bool" where
  "SocketConfig_GetReceiveOriginalDestAddress m =
     (case m of Some c \<Rightarrow> SocketConfig_ReceiveOriginalDestAddress c | None \<Rightarrow> False)"

definition SocketConfig_GetBindAddress :: "SocketConfig option \<Rightarrow> byte list option" where
  "SocketConfig_GetBindAddress m =
     (case m of Some c \<Rightarrow> SocketConfig_BindAddress c | None \<Rightarrow> None)"

definition SocketConfig_GetBindPort :: "SocketConfig option \<Rightarrow> uint32" where
  "SocketConfig_GetBindPort m = (case m of Some c \<Rightarrow> SocketConfig_BindPort c | None \<Rightarrow> 0)"

definition SocketConfig_GetTos :: "SocketConfig option \<Rightarrow> int32" where
  "SocketConfig_GetTos m = (case m of Some c \<Rightarrow> SocketConfig_Tos c | None \<Rightarrow> 0)"

section \<open>Results about package internet\<close>

text \<open>
  Claim C10. Every getter of TransportConfig, StreamConfig, ProxyConfig and SocketConfig
  returns on the nil receiver the zero value of its field: the protocol TCP (numerically
  0), the empty string, the nil pointer, the nil slice, 0, false, the fast-open state
  AsIs and the transparent-proxy mode Off. No getter fails there.
\<close>

theorem getters_nil_receiver:
  "TransportConfig_GetProtocol None = TransportProtocol_TCP
   \<and> TransportProtocol_TCP = 0
   \<and> TransportConfig_GetProtocolName None = []
   \<and> TransportConfig_GetSettings None = None
   \<and> StreamConfig_GetProtocol None = TransportProtocol_TCP
   \<and> StreamConfig_GetProtocolName None = []
   \<and> StreamConfig_GetTransportSettings None = None
   \<and> StreamConfig_GetSecurityType None = []
   \<and> StreamConfig_GetSecuritySettings None = None
   \<and> StreamConfig_GetSocketSettings None = None
   \<and> ProxyConfig_GetTag None = []
   \<and> SocketConfig_GetMark None = 0
   \<and> SocketConfig_GetTfo None = SocketConfig_AsIs
   \<and> SocketConfig_AsIs = 0
   \<and> SocketConfig_GetTproxy None = SocketConfig_Off
   \<and> SocketConfig_Off = 0
   \<and> SocketConfig_GetReceiveOriginalDestAddress None = False
   \<and> SocketConfig_GetBindAddress None = None
   \<and> SocketConfig_GetBindPort None = 0
   \<and> SocketConfig_GetTos None = 0"
  by (simp add: TransportConfig_GetProtocol_def TransportConfig_GetProtocolName_def
      TransportConfig_GetSettings_def StreamConfig_GetProtocol_def
      StreamConfig_GetProtocolName_def StreamConfig_GetTransportSettings_def
      StreamConfig_GetSecurityType_def StreamConfig_GetSecuritySettings_def
      StreamConfig_GetSocketSettings_def ProxyConfig_GetTag_def SocketConfig_GetMark_def
      SocketConfig_GetTfo_def SocketConfig_GetTproxy_def
      SocketConfig_GetReceiveOriginalDestAddress_def SocketConfig_GetBindAddress_def
      SocketConfig_GetBindPort_def SocketConfig_GetTos_def TransportProtocol_TCP_def
      SocketConfig_AsIs_def SocketConfig_Off_def)

end
